theory Spec2Isabelle
  imports Main "HOL-Library.Word" "HOL-Library.AList"
begin

unbundle bit_operations_syntax

section \<open>Data model of main.go\<close>

text \<open>
  Go strings are byte sequences; they are modelled as \<open>string\<close> (a list of 8-bit
  characters). The three structs of the program are records with the fields of the source.
\<close>

record Conf =
  AllowedAuthorizationTokens :: "string list"
  BindAddr :: string
  DbPath :: string

text \<open>The data sent along with the POST request (struct \<open>Request\<close>).\<close>

record Request =
  Name :: string
  SurfId :: string
  EMail :: string

text \<open>
  A record of attendance (struct \<open>Record\<close>). \<open>When\<close> is a \<open>time.Time\<close>, modelled
  as an instant counted in clock ticks; \<open>ID\<close> is the primary key.
\<close>

record Record =
  ID :: nat
  When :: nat
  Name :: string
  SurfId :: string
  EMail :: string

text \<open>The zero value of \<open>Request\<close>, which \<open>var request Request\<close> declares.\<close>

definition zero_Request :: Request where
  "zero_Request = \<lparr>Request.Name = [], Request.SurfId = [], Request.EMail = []\<rparr>"

section \<open>The parts of net/http the handler uses\<close>

text \<open>
  An \<open>http.Request\<close> is seen through its header map and its parsed form values, both maps
  from a key to the list of values sent for it.
\<close>

record http_Request =
  Header :: "string \<rightharpoonup> string list"
  Form :: "string \<rightharpoonup> string list"

text \<open>\<open>Header.Get\<close> and \<open>FormValue\<close>: the first value of the key, the empty string when there is none.\<close>

definition Header_Get :: "(string \<rightharpoonup> string list) \<Rightarrow> string \<Rightarrow> string" where
  "Header_Get h key = (case h key of None \<Rightarrow> [] | Some [] \<Rightarrow> [] | Some (v # _) \<Rightarrow> v)"

definition FormValue :: "http_Request \<Rightarrow> string \<Rightarrow> string" where
  "FormValue r key = (case Form r key of None \<Rightarrow> [] | Some [] \<Rightarrow> [] | Some (v # _) \<Rightarrow> v)"

text \<open>
  An \<open>http.ResponseWriter\<close>: the status code once the header has been written, and the body
  written so far. A handler that returns without writing makes the server send status 200.
  The header fields of the response are left out.
\<close>

record ResponseWriter =
  status :: "nat option"
  body :: string

definition new_ResponseWriter :: ResponseWriter where
  "new_ResponseWriter = \<lparr>status = None, body = []\<rparr>"

definition StatusBadRequest :: nat where
  "StatusBadRequest = 400"

definition StatusUnauthorized :: nat where
  "StatusUnauthorized = 401"

definition WriteHeader :: "ResponseWriter \<Rightarrow> nat \<Rightarrow> ResponseWriter" where
  "WriteHeader w code = (case status w of None \<Rightarrow> w\<lparr>status := Some code\<rparr> | Some _ \<Rightarrow> w)"

text \<open>\<open>http.Error\<close> writes the header with the code, then the message and a newline.\<close>

definition http_Error :: "ResponseWriter \<Rightarrow> string \<Rightarrow> nat \<Rightarrow> ResponseWriter" where
  "http_Error w msg code = (let w1 = WriteHeader w code in w1\<lparr>body := body w1 @ msg @ [CHR 0x0A]\<rparr>)"

text \<open>The status the client receives when the handler has returned.\<close>

definition sent_status :: "ResponseWriter \<Rightarrow> nat" where
  "sent_status w = (case status w of None \<Rightarrow> 200 | Some code \<Rightarrow> code)"

section \<open>strings.SplitN\<close>

text \<open>\<open>strings.Index\<close>: the position of the first occurrence of \<open>sep\<close> in \<open>s\<close>.\<close>

fun Index :: "string \<Rightarrow> string \<Rightarrow> nat option" where
  "Index [] sep = (if sep = [] then Some 0 else None)"
| "Index (c # cs) sep =
     (if take (length sep) (c # cs) = sep then Some 0 else map_option Suc (Index cs sep))"

text \<open>
  The loop of \<open>genSplit\<close>: at most \<open>k\<close> pieces are cut off at occurrences of \<open>sep\<close>, and
  what is left of \<open>s\<close> is the last piece.
\<close>

fun genSplit :: "string \<Rightarrow> string \<Rightarrow> nat \<Rightarrow> string list" where
  "genSplit s sep 0 = [s]"
| "genSplit s sep (Suc k) =
     (case Index s sep of
        None \<Rightarrow> [s]
      | Some m \<Rightarrow> take m s # genSplit (drop (m + length sep) s) sep k)"

text \<open>
  \<open>strings.SplitN\<close> for a non-empty separator, as the program calls it: no piece for
  \<open>n = 0\<close>, every piece for a negative \<open>n\<close>, and at most \<open>n\<close> pieces otherwise (the count is
  capped at \<open>len(s) + 1\<close>).
\<close>

definition SplitN :: "string \<Rightarrow> string \<Rightarrow> int \<Rightarrow> string list" where
  "SplitN s sep n =
     (if n = 0 then []
      else if n < 0 then genSplit s sep (length s)
      else genSplit s sep (nat (min n (int (length s) + 1)) - 1))"

section \<open>crypto/subtle\<close>

type_synonym byte = "8 word"

text \<open>\<open>[]byte(s)\<close>: the bytes of a string.\<close>

definition bytes :: "string \<Rightarrow> byte list" where
  "bytes s = map of_char s"

text \<open>\<open>ConstantTimeByteEq\<close> is \<open>int((uint32(x^y) - 1) >> 31)\<close>.\<close>

definition ConstantTimeByteEq :: "byte \<Rightarrow> byte \<Rightarrow> int" where
  "ConstantTimeByteEq x y = uint (drop_bit 31 ((ucast (x XOR y) :: 32 word) - 1))"

text \<open>The loop \<open>v |= x[i] ^ y[i]\<close> of \<open>ConstantTimeCompare\<close>, over slices of one length.\<close>

fun xor_fold :: "byte \<Rightarrow> byte list \<Rightarrow> byte list \<Rightarrow> byte" where
  "xor_fold v (a # x) (b # y) = xor_fold (v OR (a XOR b)) x y"
| "xor_fold v _ _ = v"

definition ConstantTimeCompare :: "byte list \<Rightarrow> byte list \<Rightarrow> int" where
  "ConstantTimeCompare x y =
     (if length x \<noteq> length y then 0 else ConstantTimeByteEq (xor_fold 0 x y) 0)"

section \<open>checkAuthorization\<close>

text \<open>The loop over \<open>conf.AllowedAuthorizationTokens\<close>, which returns at the first match.\<close>

fun range_tokens :: "byte list \<Rightarrow> string list \<Rightarrow> bool" where
  "range_tokens token [] = False"
| "range_tokens token (okToken # rest) =
     (if ConstantTimeCompare token (bytes okToken) = 1 then True else range_tokens token rest)"

text \<open>
  \<open>checkAuthorization\<close> returns the response writer as it leaves it, and its verdict.
\<close>

definition checkAuthorization :: "Conf \<Rightarrow> ResponseWriter \<Rightarrow> http_Request \<Rightarrow> ResponseWriter \<times> bool" where
  "checkAuthorization conf w r =
     (if length (AllowedAuthorizationTokens conf) = 0 then (w, True)
      else
        let auth = SplitN (Header_Get (Header r) ''Authorization'') '' '' 2 in
        if length auth \<noteq> 2 \<or> auth ! 0 \<noteq> ''Basic''
        then (http_Error w ''Bad or missing Authorization header'' StatusBadRequest, False)
        else
          let token = bytes (auth ! 1) in
          if range_tokens token (AllowedAuthorizationTokens conf) then (w, True)
          else (http_Error w ''Access denied'' StatusUnauthorized, False))"

section \<open>encoding/json\<close>

text \<open>
  \<open>json.Unmarshal\<close> is modelled in three steps: the bytes are cut into tokens, the
  tokens are read into a value by the pushdown automaton of the library's scanner, and the
  value is stored into the \<open>Request\<close>. Any input the grammar of JSON refuses is a
  syntax error.
\<close>

datatype json =
    JNull
  | JBool bool
  | JNumber string
  | JString string
  | JArray "json list"
  | JObject "(string \<times> json) list"

datatype token =
    TLBrace | TRBrace | TLBrack | TRBrack | TColon | TComma
  | TString string | TNumber string | TTrue | TFalse | TNull

text \<open>Classes of bytes.\<close>

definition byte_in :: "nat \<Rightarrow> nat \<Rightarrow> char \<Rightarrow> bool" where
  "byte_in lo hi c = (lo \<le> of_char c \<and> (of_char c :: nat) \<le> hi)"

definition is_space :: "char \<Rightarrow> bool" where
  "is_space c = (c = CHR '' '' \<or> c = CHR 0x09 \<or> c = CHR 0x0D \<or> c = CHR 0x0A)"

definition is_digit :: "char \<Rightarrow> bool" where
  "is_digit c = byte_in 0x30 0x39 c"

subsection \<open>UTF-8\<close>

text \<open>
  \<open>utf8.DecodeRune\<close>, as far as the decoder needs it: \<open>utf8_size c cs\<close> is the number of
  bytes of the well-formed sequence that starts with \<open>c\<close> and goes on in \<open>cs\<close>, and 0
  when there is none. The second byte of a sequence has a range of its own after some
  first bytes; the bytes after it are continuation bytes.
\<close>

definition accept :: "nat \<Rightarrow> nat \<Rightarrow> nat \<Rightarrow> string \<Rightarrow> nat" where
  "accept n lo hi cs =
     (case cs of
        [] \<Rightarrow> 0
      | c1 # rest \<Rightarrow>
          if byte_in lo hi c1 \<and> n - 2 \<le> length rest \<and> list_all (byte_in 0x80 0xBF) (take (n - 2) rest)
          then n else 0)"

definition utf8_size :: "char \<Rightarrow> string \<Rightarrow> nat" where
  "utf8_size c cs =
     (let b = of_char c :: nat in
      if b < 0x80 then 1
      else if b < 0xC2 then 0
      else if b < 0xE0 then accept 2 0x80 0xBF cs
      else if b = 0xE0 then accept 3 0xA0 0xBF cs
      else if b = 0xED then accept 3 0x80 0x9F cs
      else if b < 0xF0 then accept 3 0x80 0xBF cs
      else if b = 0xF0 then accept 4 0x90 0xBF cs
      else if b < 0xF4 then accept 4 0x80 0xBF cs
      else if b = 0xF4 then accept 4 0x80 0x8F cs
      else 0)"

text \<open>\<open>utf8.EncodeRune\<close>; a surrogate or a value out of range is written as U+FFFD.\<close>

definition RuneError :: nat where
  "RuneError = 0xFFFD"

definition EncodeRune :: "nat \<Rightarrow> string" where
  "EncodeRune r =
     (if r < 0x80 then [char_of r]
      else if r < 0x800 then [char_of (0xC0 + r div 64), char_of (0x80 + r mod 64)]
      else if 0x10FFFF < r \<or> (0xD800 \<le> r \<and> r \<le> 0xDFFF) then [CHR 0xEF, CHR 0xBF, CHR 0xBD]
      else if r < 0x10000 then
        [char_of (0xE0 + r div 4096), char_of (0x80 + r div 64 mod 64), char_of (0x80 + r mod 64)]
      else
        [char_of (0xF0 + r div 262144), char_of (0x80 + r div 4096 mod 64),
         char_of (0x80 + r div 64 mod 64), char_of (0x80 + r mod 64)])"

subsection \<open>String literals\<close>

text \<open>
  A string literal is checked and unquoted in one pass. The escape with \<open>u\<close> takes four
  hex digits; a surrogate is joined with the escape after it when the two form a pair and
  becomes U+FFFD otherwise. Bytes that are not well-formed UTF-8 become U+FFFD, control
  characters are refused. The result is the unquoted string and the input after the
  closing quote.
\<close>

definition hexval :: "char \<Rightarrow> nat option" where
  "hexval c =
     (if byte_in 0x30 0x39 c then Some (of_char c - 0x30)
      else if byte_in 0x61 0x66 c then Some (of_char c - 0x61 + 10)
      else if byte_in 0x41 0x46 c then Some (of_char c - 0x41 + 10)
      else None)"

definition hex4 :: "string \<Rightarrow> nat option" where
  "hex4 s =
     (case map hexval (take 4 s) of
        [Some a, Some b, Some c, Some d] \<Rightarrow> Some (((a * 16 + b) * 16 + c) * 16 + d)
      | _ \<Rightarrow> None)"

definition getu4 :: "string \<Rightarrow> nat option" where
  "getu4 s = (if take 2 s = [CHR 0x5C, CHR ''u''] then hex4 (drop 2 s) else None)"

definition utf16_DecodeRune :: "nat \<Rightarrow> nat option \<Rightarrow> nat" where
  "utf16_DecodeRune r1 r2 =
     (case r2 of
        None \<Rightarrow> RuneError
      | Some r2 \<Rightarrow>
          if 0xD800 \<le> r1 \<and> r1 < 0xDC00 \<and> 0xDC00 \<le> r2 \<and> r2 < 0xE000
          then (r1 - 0xD800) * 1024 + (r2 - 0xDC00) + 0x10000
          else RuneError)"

definition simple_escape :: "char \<Rightarrow> char option" where
  "simple_escape e =
     (if e = CHR 0x22 \<or> e = CHR 0x5C \<or> e = CHR ''/'' then Some e
      else if e = CHR ''b'' then Some (CHR 0x08)
      else if e = CHR ''f'' then Some (CHR 0x0C)
      else if e = CHR ''n'' then Some (CHR 0x0A)
      else if e = CHR ''r'' then Some (CHR 0x0D)
      else if e = CHR ''t'' then Some (CHR 0x09)
      else None)"

definition emit :: "string \<Rightarrow> (string \<times> string) option \<Rightarrow> (string \<times> string) option" where
  "emit out res = map_option (\<lambda>(s, rest). (out @ s, rest)) res"

function lex_string :: "string \<Rightarrow> (string \<times> string) option" where
  "lex_string [] = None"
| "lex_string (c # cs) =
     (if c = CHR 0x22 then Some ([], cs)
      else if c = CHR 0x5C then
        (case cs of
           [] \<Rightarrow> None
         | e # es \<Rightarrow>
             if e = CHR ''u'' then
               (case hex4 es of
                  None \<Rightarrow> None
                | Some rr \<Rightarrow>
                    if 0xD800 \<le> rr \<and> rr < 0xE000 then
                      (let dec = utf16_DecodeRune rr (getu4 (drop 4 es)) in
                       if dec \<noteq> RuneError then emit (EncodeRune dec) (lex_string (drop 10 es))
                       else emit (EncodeRune RuneError) (lex_string (drop 4 es)))
                    else emit (EncodeRune rr) (lex_string (drop 4 es)))
             else
               (case simple_escape e of
                  None \<Rightarrow> None
                | Some x \<Rightarrow> emit [x] (lex_string es)))
      else if (of_char c :: nat) < 0x20 then None
      else
        (let size = utf8_size c cs in
         if size = 0 then emit (EncodeRune RuneError) (lex_string cs)
         else emit (c # take (size - 1) cs) (lex_string (drop (size - 1) cs))))"
  by pat_completeness auto
termination
  by (relation "measure length") auto

text \<open>A literal takes at least its closing quote: what is left is shorter.\<close>

lemma lex_string_shorter: "lex_string s = Some (v, r) \<Longrightarrow> length r < length s"
proof (induction s arbitrary: v r rule: lex_string.induct)
  case 1
  then show ?case by simp
next
  case (2 c cs)
  show ?case using "2.prems" "2.IH"
    apply (simp add: emit_def Let_def split: if_splits list.splits option.splits)
    apply (force)+
    done
qed

subsection \<open>Number literals\<close>

text \<open>
  An optional minus, then \<open>0\<close> or digits that do not start with \<open>0\<close>, then an optional
  fraction and an optional exponent, each with at least one digit.
\<close>

definition lex_int :: "string \<Rightarrow> (string \<times> string) option" where
  "lex_int s =
     (case s of
        [] \<Rightarrow> None
      | c # cs \<Rightarrow>
          if c = CHR ''0'' then Some ([c], cs)
          else if is_digit c then Some (c # takeWhile is_digit cs, dropWhile is_digit cs)
          else None)"

definition lex_digits1 :: "string \<Rightarrow> (string \<times> string) option" where
  "lex_digits1 s = (if takeWhile is_digit s = [] then None else Some (takeWhile is_digit s, dropWhile is_digit s))"

definition lex_frac :: "string \<Rightarrow> (string \<times> string) option" where
  "lex_frac s =
     (case s of
        [] \<Rightarrow> Some ([], [])
      | c # cs \<Rightarrow>
          if c = CHR ''.'' then emit [c] (lex_digits1 cs) else Some ([], s))"

definition lex_exp :: "string \<Rightarrow> (string \<times> string) option" where
  "lex_exp s =
     (case s of
        [] \<Rightarrow> Some ([], [])
      | c # cs \<Rightarrow>
          if c = CHR ''e'' \<or> c = CHR ''E'' then
            (case cs of
               [] \<Rightarrow> None
             | d # ds \<Rightarrow>
                 if d = CHR ''+'' \<or> d = CHR ''-'' then emit [c, d] (lex_digits1 ds)
                 else emit [c] (lex_digits1 cs))
          else Some ([], s))"

definition lex_number :: "string \<Rightarrow> (string \<times> string) option" where
  "lex_number s =
     (let (sign, s1) = (case s of [] \<Rightarrow> ([], []) | c # cs \<Rightarrow> if c = CHR ''-'' then ([c], cs) else ([], s)) in
      case lex_int s1 of
        None \<Rightarrow> None
      | Some (i, s2) \<Rightarrow>
          (case lex_frac s2 of
             None \<Rightarrow> None
           | Some (f, s3) \<Rightarrow> emit (sign @ i @ f) (lex_exp s3)))"

text \<open>A number takes at least one digit.\<close>

lemma lex_digits1_shorter: "lex_digits1 s = Some (v, r) \<Longrightarrow> length r \<le> length s"
  by (auto simp: lex_digits1_def length_dropWhile_le split: if_splits)

lemma lex_int_shorter: "lex_int s = Some (v, r) \<Longrightarrow> length r < length s"
  by (auto simp: lex_int_def length_dropWhile_le less_Suc_eq_le split: list.splits if_splits)

lemma lex_frac_shorter: "lex_frac s = Some (v, r) \<Longrightarrow> length r \<le> length s"
  by (auto simp: lex_frac_def emit_def split: list.splits if_splits dest!: lex_digits1_shorter)

lemma lex_exp_shorter: "lex_exp s = Some (v, r) \<Longrightarrow> length r \<le> length s"
  by (auto simp: lex_exp_def emit_def split: list.splits if_splits dest!: lex_digits1_shorter)

lemma lex_number_shorter: "lex_number s = Some (v, r) \<Longrightarrow> length r < length s"
  by (auto simp: lex_number_def emit_def split: list.splits if_splits option.splits prod.splits
      dest!: lex_int_shorter lex_frac_shorter lex_exp_shorter)

subsection \<open>Tokens\<close>

text \<open>White space between tokens is skipped; any other byte that starts no token is refused.\<close>

definition tok :: "token \<Rightarrow> token list option \<Rightarrow> token list option" where
  "tok t res = map_option (Cons t) res"

function lex :: "string \<Rightarrow> token list option" where
  "lex [] = Some []"
| "lex (c # cs) =
     (if is_space c then lex cs
      else if c = CHR ''{'' then tok TLBrace (lex cs)
      else if c = CHR ''}'' then tok TRBrace (lex cs)
      else if c = CHR ''['' then tok TLBrack (lex cs)
      else if c = CHR '']'' then tok TRBrack (lex cs)
      else if c = CHR '':'' then tok TColon (lex cs)
      else if c = CHR '','' then tok TComma (lex cs)
      else if c = CHR 0x22 then
        (case lex_string cs of None \<Rightarrow> None | Some (s, rest) \<Rightarrow> tok (TString s) (lex rest))
      else if c = CHR ''-'' \<or> is_digit c then
        (case lex_number (c # cs) of None \<Rightarrow> None | Some (n, rest) \<Rightarrow> tok (TNumber n) (lex rest))
      else if c = CHR ''t'' \<and> take 3 cs = ''rue'' then tok TTrue (lex (drop 3 cs))
      else if c = CHR ''f'' \<and> take 4 cs = ''alse'' then tok TFalse (lex (drop 4 cs))
      else if c = CHR ''n'' \<and> take 3 cs = ''ull'' then tok TNull (lex (drop 3 cs))
      else None)"
  by pat_completeness auto
termination
proof (relation "measure length")
  fix c cs x2 x y
  assume "lex_string cs = Some x2" "(x, y) = x2"
  then show "(y, c # cs) \<in> measure length"
    using lex_string_shorter [of cs x y] by simp
next
  fix c cs x2 x y
  assume "lex_number (c # cs) = Some x2" "(x, y) = x2"
  then show "(y, c # cs) \<in> measure length"
    using lex_number_shorter [of "c # cs" x y] by simp
qed auto

subsection \<open>Values\<close>

text \<open>
  The states of the scanner, and its stack: one frame for each array or object that is
  open, holding what has been read of it. The library refuses input that opens more than
  10000 of them at once.
\<close>

definition maxNestingDepth :: nat where
  "maxNestingDepth = 10000"

datatype frame = FObject "(string \<times> json) list" | FKey "(string \<times> json) list" string | FArray "json list"

datatype pstate =
    BeginValue | BeginValueOrEmpty | BeginString | BeginStringOrEmpty
  | EndKey | EndValue | EndTop json

text \<open>A value is complete: it is the result, or it goes into the array or object around it.\<close>

fun end_value :: "json \<Rightarrow> frame list \<Rightarrow> (pstate \<times> frame list) option" where
  "end_value v [] = Some (EndTop v, [])"
| "end_value v (FKey kvs k # st) = Some (EndValue, FObject (kvs @ [(k, v)]) # st)"
| "end_value v (FArray vs # st) = Some (EndValue, FArray (vs @ [v]) # st)"
| "end_value v (FObject kvs # st) = None"

text \<open>A value begins: a literal is complete at once, a bracket or brace opens a frame.\<close>

fun begin_value :: "token \<Rightarrow> frame list \<Rightarrow> (pstate \<times> frame list) option" where
  "begin_value TLBrace st =
     (if length st < maxNestingDepth then Some (BeginStringOrEmpty, FObject [] # st) else None)"
| "begin_value TLBrack st =
     (if length st < maxNestingDepth then Some (BeginValueOrEmpty, FArray [] # st) else None)"
| "begin_value (TString s) st = end_value (JString s) st"
| "begin_value (TNumber n) st = end_value (JNumber n) st"
| "begin_value TTrue st = end_value (JBool True) st"
| "begin_value TFalse st = end_value (JBool False) st"
| "begin_value TNull st = end_value JNull st"
| "begin_value _ st = None"

fun begin_string :: "token \<Rightarrow> frame list \<Rightarrow> (pstate \<times> frame list) option" where
  "begin_string (TString k) (FObject kvs # st) = Some (EndKey, FKey kvs k # st)"
| "begin_string _ _ = None"

text \<open>One token in one state of the scanner; \<open>None\<close> is a syntax error.\<close>

fun step :: "pstate \<Rightarrow> token \<Rightarrow> frame list \<Rightarrow> (pstate \<times> frame list) option" where
  "step BeginValue t st = begin_value t st"
| "step BeginValueOrEmpty t st =
     (case (t, st) of
        (TRBrack, FArray vs # st') \<Rightarrow> end_value (JArray vs) st'
      | _ \<Rightarrow> begin_value t st)"
| "step BeginString t st = begin_string t st"
| "step BeginStringOrEmpty t st =
     (case (t, st) of
        (TRBrace, FObject kvs # st') \<Rightarrow> end_value (JObject kvs) st'
      | _ \<Rightarrow> begin_string t st)"
| "step EndKey t st = (if t = TColon then Some (BeginValue, st) else None)"
| "step EndValue t st =
     (case st of
        FObject kvs # st' \<Rightarrow>
          if t = TComma then Some (BeginString, st)
          else if t = TRBrace then end_value (JObject kvs) st'
          else None
      | FArray vs # st' \<Rightarrow>
          if t = TComma then Some (BeginValue, st)
          else if t = TRBrack then end_value (JArray vs) st'
          else None
      | _ \<Rightarrow> None)"
| "step (EndTop v) t st = None"

text \<open>The input is a value when its tokens end in the state after a top-level value.\<close>

fun parse_tokens :: "pstate \<Rightarrow> frame list \<Rightarrow> token list \<Rightarrow> json option" where
  "parse_tokens (EndTop v) [] [] = Some v"
| "parse_tokens _ _ [] = None"
| "parse_tokens ps st (t # ts) =
     (case step ps t st of None \<Rightarrow> None | Some (ps', st') \<Rightarrow> parse_tokens ps' st' ts)"

definition json_parse :: "string \<Rightarrow> json option" where
  "json_parse s = (case lex s of None \<Rightarrow> None | Some ts \<Rightarrow> parse_tokens BeginValue [] ts)"

subsection \<open>Unmarshal into a Request\<close>

text \<open>The two errors the call can return here, a type error with the kind of value and the Go type.\<close>

datatype json_error = SyntaxError | UnmarshalTypeError string string

fun json_kind :: "json \<Rightarrow> string" where
  "json_kind JNull = ''null''"
| "json_kind (JBool b) = ''bool''"
| "json_kind (JNumber n) = ''number''"
| "json_kind (JString s) = ''string''"
| "json_kind (JArray vs) = ''array''"
| "json_kind (JObject kvs) = ''object''"

text \<open>
  A key names a field when the two are equal under Unicode simple case folding. Against a
  name of ASCII letters that is: an ASCII letter matches in either case, and the long s
  (U+017F) and the Kelvin sign (U+212A) match the letters s and k.
\<close>

function foldName :: "string \<Rightarrow> string" where
  "foldName [] = []"
| "foldName (c # cs) =
     (if c = CHR 0xC5 \<and> take 1 cs = [CHR 0xBF] then CHR ''s'' # foldName (drop 1 cs)
      else if c = CHR 0xE2 \<and> take 2 cs = [CHR 0x84, CHR 0xAA] then CHR ''k'' # foldName (drop 2 cs)
      else if byte_in 0x41 0x5A c then char_of (of_char c + (32 :: nat)) # foldName cs
      else c # foldName cs)"
  by pat_completeness auto
termination
  by (relation "measure length") auto

datatype field = Field_Name | Field_SurfId | Field_EMail

definition find_field :: "string \<Rightarrow> field option" where
  "find_field key =
     (if foldName key = foldName ''Name'' then Some Field_Name
      else if foldName key = foldName ''SurfId'' then Some Field_SurfId
      else if foldName key = foldName ''EMail'' then Some Field_EMail
      else None)"

fun set_field :: "field \<Rightarrow> string \<Rightarrow> Request \<Rightarrow> Request" where
  "set_field Field_Name s req = req\<lparr>Request.Name := s\<rparr>"
| "set_field Field_SurfId s req = req\<lparr>Request.SurfId := s\<rparr>"
| "set_field Field_EMail s req = req\<lparr>Request.EMail := s\<rparr>"


text \<open>The decoder remembers the first error and goes on.\<close>

definition saveError :: "json_error option \<Rightarrow> json_error \<Rightarrow> json_error option" where
  "saveError saved e = (case saved of None \<Rightarrow> Some e | Some e0 \<Rightarrow> Some e0)"

text \<open>
  A value stored into a field of type \<open>string\<close>: a string is assigned, \<open>null\<close> leaves the
  field as it is, anything else is a type error.
\<close>

fun store_string :: "field \<Rightarrow> json \<Rightarrow> Request \<times> json_error option \<Rightarrow> Request \<times> json_error option" where
  "store_string f (JString s) (req, saved) = (set_field f s req, saved)"
| "store_string f JNull (req, saved) = (req, saved)"
| "store_string f v (req, saved) = (req, saveError saved (UnmarshalTypeError (json_kind v) ''string''))"

text \<open>The members of an object in turn; a key that names no field is skipped.\<close>

fun object :: "(string \<times> json) list \<Rightarrow> Request \<times> json_error option \<Rightarrow> Request \<times> json_error option" where
  "object [] acc = acc"
| "object ((key, v) # kvs) acc =
     object kvs (case find_field key of None \<Rightarrow> acc | Some f \<Rightarrow> store_string f v acc)"

text \<open>
  \<open>json.Unmarshal(data, &request)\<close>: the request as the call leaves it, and the error.
  The input is checked as a whole first, so a syntax error leaves the request untouched.
\<close>

definition json_Unmarshal :: "string \<Rightarrow> Request \<Rightarrow> Request \<times> json_error option" where
  "json_Unmarshal data request =
     (case json_parse data of
        None \<Rightarrow> (request, Some SyntaxError)
      | Some JNull \<Rightarrow> (request, None)
      | Some (JObject kvs) \<Rightarrow> object kvs (request, None)
      | Some v \<Rightarrow> (request, Some (UnmarshalTypeError (json_kind v) ''main.Request'')))"

text \<open>
  \<open>err.Error()\<close>. The wording of a syntax error depends on the offending byte and its
  offset; the model keeps one wording for all of them. Later versions of the library add
  the name of the struct field to a type error.
\<close>

fun Error :: "json_error \<Rightarrow> string" where
  "Error SyntaxError = ''invalid JSON input''"
| "Error (UnmarshalTypeError v t) = ''json: cannot unmarshal '' @ v @ '' into Go value of type '' @ t"

section \<open>The database, the log, the mailer and the clock\<close>

subsection \<open>mime: encoded words\<close>

text \<open>
  \<open>mime.QEncoding.Encode(charset, s)\<close>, through which \<open>gomail\<close> passes every header
  value. A string of printable ASCII characters and tabs is returned as it is. Any other
  string becomes an encoded word, \<open>=?charset?q?\<close> ... \<open>?=\<close>: a space is written as an
  underscore, a printable character other than \<open>=\<close>, \<open>?\<close> and \<open>_\<close> as itself, any other
  byte as \<open>=\<close> and two hex digits.
\<close>

definition needsEncoding :: "string \<Rightarrow> bool" where
  "needsEncoding s =
     list_ex (\<lambda>b. ((of_char b :: nat) < 0x20 \<or> 0x7E < (of_char b :: nat)) \<and> b \<noteq> CHR 0x09) s"

definition upperhex :: "nat \<Rightarrow> char" where
  "upperhex n = (if n < 10 then char_of (0x30 + n) else char_of (0x41 + (n - 10)))"

definition q_literal :: "char \<Rightarrow> bool" where
  "q_literal b = (b \<noteq> CHR ''='' \<and> b \<noteq> CHR ''?'' \<and> b \<noteq> CHR ''_'')"

fun writeQString :: "string \<Rightarrow> string" where
  "writeQString [] = []"
| "writeQString (b # s) =
     (if b = CHR '' '' then [CHR ''_'']
      else if byte_in 0x21 0x7E b \<and> q_literal b then [b]
      else [CHR ''='', upperhex (of_char b div 16), upperhex (of_char b mod 16)])
     @ writeQString s"

text \<open>
  With the charset UTF-8 the content of one encoded word is held to 63 characters: before
  a character that would pass it, the word is closed and another opened, and the bytes of
  one UTF-8 sequence stay in one word.
\<close>

definition maxEncodedWordLen :: nat where
  "maxEncodedWordLen = 75"

definition maxContentLen :: nat where
  "maxContentLen = maxEncodedWordLen - length ''=?UTF-8?q?'' - length ''?=''"

definition openWord :: "string \<Rightarrow> string" where
  "openWord charset = ''=?'' @ charset @ ''?q?''"

definition closeWord :: string where
  "closeWord = ''?=''"

definition splitWord :: "string \<Rightarrow> string" where
  "splitWord charset = closeWord @ '' '' @ openWord charset"

text \<open>
  \<open>strings.EqualFold(charset, "UTF-8")\<close>; against this name of ASCII characters the
  folding of \<open>foldName\<close> is the folding of the library.
\<close>

definition isUTF8 :: "string \<Rightarrow> bool" where
  "isUTF8 charset = (foldName charset = foldName ''UTF-8'')"

function qEncode_loop :: "string \<Rightarrow> nat \<Rightarrow> string \<Rightarrow> string" where
  "qEncode_loop charset currentLen [] = []"
| "qEncode_loop charset currentLen (b # s) =
     (let plain = (byte_in 0x20 0x7E b \<and> q_literal b);
          runeLen = (if plain then 1 else max 1 (utf8_size b s));
          encLen = (if plain then 1 else 3 * runeLen);
          split = (maxContentLen < currentLen + encLen)
      in (if split then splitWord charset else [])
         @ writeQString (b # take (runeLen - 1) s)
         @ qEncode_loop charset ((if split then 0 else currentLen) + encLen) (drop (runeLen - 1) s))"
  by pat_completeness auto
termination
  by (relation "measure (\<lambda>(charset, currentLen, s). length s)") auto

definition qEncode :: "string \<Rightarrow> string \<Rightarrow> string" where
  "qEncode charset s = (if isUTF8 charset then qEncode_loop charset 0 s else writeQString s)"

definition encodeWord :: "string \<Rightarrow> string \<Rightarrow> string" where
  "encodeWord charset s = openWord charset @ qEncode charset s @ closeWord"

definition QEncoding_Encode :: "string \<Rightarrow> string \<Rightarrow> string" where
  "QEncoding_Encode charset s = (if needsEncoding s then encodeWord charset s else s)"

subsection \<open>gomail\<close>

text \<open>
  A \<open>gomail.Message\<close>: the header fields as the library stores them, the body parts with
  their content types, and the charset. \<open>NewMessage\<close> without settings gives the charset
  UTF-8 and the Q encoding for header values.
\<close>

record Message =
  header :: "(string \<times> string list) list"
  parts :: "(string \<times> string) list"
  charset :: string

definition NewMessage :: Message where
  "NewMessage = \<lparr>header = [], parts = [], charset = ''UTF-8''\<rparr>"

text \<open>\<open>SetHeader\<close> encodes the value, then stores it under the field.\<close>

definition SetHeader :: "Message \<Rightarrow> string \<Rightarrow> string \<Rightarrow> Message" where
  "SetHeader m field v =
     m\<lparr>header := AList.update field [QEncoding_Encode (charset m) v] (header m)\<rparr>"

definition SetBody :: "Message \<Rightarrow> string \<Rightarrow> string \<Rightarrow> Message" where
  "SetBody m contentType b = m\<lparr>parts := [(contentType, b)]\<rparr>"

definition GetHeader :: "Message \<Rightarrow> string \<Rightarrow> string list" where
  "GetHeader m field = (case map_of (header m) field of None \<Rightarrow> [] | Some vs \<Rightarrow> vs)"

text \<open>
  Library calls that leave no other mark on the state are kept in a trace.
\<close>

datatype call = Call_Unmarshal string | Call_Create Record | Call_NewMessage

text \<open>
  What the handler can change apart from the response: the rows of the table of records,
  the lines logged, the goroutines started (each with the message it is to send), and
  the trace of library calls.
\<close>

record world =
  rows :: "Record list"
  logged :: "string list"
  goroutines :: "Message list"
  calls :: "call list"

text \<open>
  What the surroundings decide during one call of the handler: the error of the database
  write, if any, and the clock. Time is counted in ticks from a fixed origin; the handler
  is entered at \<open>entered\<close>, \<open>time.Now()\<close> is evaluated \<open>before_now\<close> ticks later, and
  the handler returns \<open>after_now\<close> ticks after that.
\<close>

record env =
  db_error :: "string option"
  entered :: nat
  before_now :: nat
  after_now :: nat

definition time_Now :: "env \<Rightarrow> nat" where
  "time_Now e = entered e + before_now e"

definition returned :: "env \<Rightarrow> nat" where
  "returned e = time_Now e + after_now e"

text \<open>Decimal digits of a number (\<open>strconv.Itoa\<close>).\<close>

function Itoa :: "nat \<Rightarrow> string" where
  "Itoa n = (if n < 10 then [char_of (48 + n)] else Itoa (n div 10) @ [char_of (48 + n mod 10)])"
  by pat_completeness auto
termination
  by (relation "measure id") auto

declare Itoa.simps [simp del]

text \<open>
  \<open>Time.String()\<close>. The layout of the library (date, zone, monotonic reading) is not
  modelled: an instant is printed as its tick count.
\<close>

definition Time_String :: "nat \<Rightarrow> string" where
  "Time_String t = Itoa t"

definition call :: "call \<Rightarrow> world \<Rightarrow> world" where
  "call c s = s\<lparr>calls := calls s @ [c]\<rparr>"

definition log_Printf :: "string \<Rightarrow> world \<Rightarrow> world" where
  "log_Printf line s = s\<lparr>logged := logged s @ [line]\<rparr>"

text \<open>The key the database gives a new row: one more than the largest key in the table.\<close>

definition next_ID :: "Record list \<Rightarrow> nat" where
  "next_ID rs = Suc (foldr max (map ID rs) 0)"

text \<open>
  \<open>db.Create(&record)\<close>: the record as the call leaves it, the error, and the new state.
  A successful write appends the row and sets the key of the record.
\<close>

definition db_Create :: "env \<Rightarrow> Record \<Rightarrow> world \<Rightarrow> Record \<times> string option \<times> world" where
  "db_Create e record s =
     (let s1 = call (Call_Create record) s in
      case db_error e of
        Some err \<Rightarrow> (record, Some err, s1)
      | None \<Rightarrow>
          (let stored = record\<lparr>ID := next_ID (rows s1)\<rparr>
           in (stored, None, s1\<lparr>rows := rows s1 @ [stored]\<rparr>)))"

text \<open>The \<open>go\<close> statement: a goroutine is started and the caller goes on.\<close>

definition go :: "Message \<Rightarrow> world \<Rightarrow> world" where
  "go m s = s\<lparr>goroutines := goroutines s @ [m]\<rparr>"

text \<open>
  The body of the goroutine, run later by the scheduler: \<open>err\<close> is what
  \<open>mailer.DialAndSend(m)\<close> returns.
\<close>

definition send_mail :: "string option \<Rightarrow> Message \<Rightarrow> world \<Rightarrow> world" where
  "send_mail err m s =
     (case err of None \<Rightarrow> s | Some e \<Rightarrow> log_Printf (''Failed to so end e-mail: '' @ e) s)"

section \<open>submitHandler\<close>

text \<open>Lines 155 to 160: the record built from the request, stamped with \<open>time.Now()\<close>.\<close>

definition new_record :: "env \<Rightarrow> Request \<Rightarrow> Record" where
  "new_record e request =
     \<lparr>ID = 0, When = time_Now e,
      Record.Name = Request.Name request,
      Record.SurfId = Request.SurfId request,
      Record.EMail = Request.EMail request\<rparr>"

text \<open>Lines 166 to 178: the confirmation built from the record.\<close>

definition confirmation :: "Record \<Rightarrow> Message" where
  "confirmation record =
     (let m = NewMessage;
          m = SetHeader m ''From'' ''Privacy Seminar <no-reply@metrics.privacybydesign.foundation>'';
          m = SetHeader m ''To'' (Record.EMail record);
          m = SetHeader m ''Subject'' ''Your presence at Privacy and Identity'';
          m = SetBody m ''text/plain''
                (''Dear student '' @ Record.Name record @ '',\<newline>'' @
                 ''\<newline>'' @
                 ''This email confirms that your presence at the course\<newline>'' @
                 ''Privacy and Identity has been registered at: '' @ Time_String (When record) @ ''\<newline>'' @
                 ''\<newline>'' @
                 ''With best regards,\<newline>'' @
                 ''Koning and Jacobs\<newline>'')
      in m)"

definition submitHandler ::
  "env \<Rightarrow> Conf \<Rightarrow> http_Request \<Rightarrow> ResponseWriter \<times> world \<Rightarrow> ResponseWriter \<times> world" where
  "submitHandler e conf r ws =
     (let (w, s) = ws;
          request = zero_Request;
          (w, ok) = checkAuthorization conf w r
      in
      if \<not> ok then (w, s)
      else
        let data = FormValue r ''request'';
            s = call (Call_Unmarshal data) s;
            (request, err) = json_Unmarshal data request
        in
        case err of
          Some err \<Rightarrow>
            (http_Error w (''Missing or malformed request form field: '' @ Error err) 400, s)
        | None \<Rightarrow>
            let record = new_record e request;
                (record, err, s) = db_Create e record s;
                s = (case err of
                       Some err \<Rightarrow> log_Printf (''Failed to store attendance record: '' @ err) s
                     | None \<Rightarrow> s);
                s = call Call_NewMessage s;
                m = confirmation record;
                s = go m s
            in (w, s))"

section \<open>Examples\<close>

text \<open>
  The scenarios of the specification: a configuration with the one token \<open>secrettoken\<close>
  and one without tokens, requests given by their Authorization header and their form
  field \<open>request\<close>, a state with nothing stored, logged or started, and surroundings in
  which the handler is entered at tick 1000 and reads the clock at tick 1005.
\<close>

definition example_conf :: Conf where
  "example_conf = \<lparr>AllowedAuthorizationTokens = [''secrettoken''], BindAddr = '':8080'', DbPath = ''db.sqlite3''\<rparr>"

definition open_conf :: Conf where
  "open_conf = \<lparr>AllowedAuthorizationTokens = [], BindAddr = '':8080'', DbPath = ''db.sqlite3''\<rparr>"

definition example_request :: "string option \<Rightarrow> string option \<Rightarrow> http_Request" where
  "example_request authorization payload =
     \<lparr>Header = (case authorization of None \<Rightarrow> Map.empty | Some h \<Rightarrow> [''Authorization'' \<mapsto> [h]]),
      Form = (case payload of None \<Rightarrow> Map.empty | Some d \<Rightarrow> [''request'' \<mapsto> [d]])\<rparr>"

definition empty_world :: world where
  "empty_world = \<lparr>rows = [], logged = [], goroutines = [], calls = []\<rparr>"

definition example_env :: "string option \<Rightarrow> env" where
  "example_env err = \<lparr>db_error = err, entered = 1000, before_now = 5, after_now = 7\<rparr>"

definition ann_payload :: string where
  "ann_payload = ''{\"Name\":\"Ann\",\"SurfId\":\"ann123\",\"EMail\":\"ann@example.com\"}''"

definition ann_request :: http_Request where
  "ann_request = example_request (Some ''Basic secrettoken'') (Some ann_payload)"

definition ann :: Request where
  "ann = \<lparr>Request.Name = ''Ann'', Request.SurfId = ''ann123'', Request.EMail = ''ann@example.com''\<rparr>"


text \<open>A submission whose name and address have a letter outside ASCII, in UTF-8.\<close>

definition accent_payload :: string where
  "accent_payload = ''{\"Name\":\"Ren'' @ [CHR 0xC3, CHR 0xA9] @ ''e\",\"EMail\":\"ren''
     @ [CHR 0xC3, CHR 0xA9] @ ''e@example.com\"}''"

definition accent_request :: http_Request where
  "accent_request = example_request (Some ''Basic secrettoken'') (Some accent_payload)"

definition accent :: Request where
  "accent = \<lparr>Request.Name = ''Ren'' @ [CHR 0xC3, CHR 0xA9] @ ''e'', Request.SurfId = [],
     Request.EMail = ''ren'' @ [CHR 0xC3, CHR 0xA9] @ ''e@example.com''\<rparr>"

section \<open>Authorization: proofs\<close>

subsection \<open>Splitting the header\<close>

lemma Index_single_None: "Index s [c] = None \<longleftrightarrow> c \<notin> set s"
  by (induction s) auto

lemma Index_single_Some:
  "Index s [c] = Some m \<Longrightarrow> m < length s \<and> s ! m = c \<and> c \<notin> set (take m s)"
proof (induction s arbitrary: m)
  case Nil
  then show ?case by simp
next
  case (Cons a s)
  then show ?case by (auto split: if_splits)
qed

lemma Index_after_prefix: "c \<notin> set p \<Longrightarrow> Index (p @ c # t) [c] = Some (length p)"
  by (induction p) auto

lemma SplitN_2: 
  "SplitN s [c] 2 = (case Index s [c] of None \<Rightarrow> [s] | Some m \<Rightarrow> [take m s, drop (Suc m) s])"
proof (cases s)
  case Nil
  then show ?thesis by (simp add: SplitN_def)
next
  case (Cons a t)
  then show ?thesis by (simp add: SplitN_def min_def split: option.splits)
qed

lemma SplitN_Basic: "SplitN (''Basic '' @ token) '' '' 2 = [''Basic'', token]"
proof -
  have "Index (''Basic'' @ CHR '' '' # token) '' '' = Some (length ''Basic'')"
    by (rule Index_after_prefix) simp
  then show ?thesis by (simp add: SplitN_2)
qed

lemma SplitN_not_Basic:
  assumes "length (SplitN h '' '' 2) = 2" and "SplitN h '' '' 2 ! 0 = ''Basic''"
  shows "\<exists>token. h = ''Basic '' @ token"
proof (cases "Index h '' ''")
  case None
  with assms(1) show ?thesis by (simp add: SplitN_2)
next
  case (Some m)
  with assms(2) have t: "take m h = ''Basic''" by (simp add: SplitN_2)
  from Some have "m < length h" and "h ! m = CHR '' ''"
    using Index_single_Some [of h "CHR '' ''" m] by simp_all
  then have "h = take m h @ CHR '' '' # drop (Suc m) h"
    by (metis id_take_nth_drop)
  with t have "h = ''Basic '' @ drop (Suc m) h" by simp
  then show ?thesis ..
qed

subsection \<open>Comparing tokens\<close>

lemma unat_of_char8: "unat (of_char a :: 8 word) = of_char a"
proof -
  have "(of_char a :: nat) < 2 ^ LENGTH(8)" using nat_of_char_less_256 [of a] by simp
  then show ?thesis
    by (metis of_nat_of_char of_nat_inverse)
qed

lemma of_char8_eq_iff: "(of_char a :: 8 word) = of_char b \<longleftrightarrow> a = b"
  by (metis unat_of_char8 of_char_eq_iff)

lemma bytes_eq_iff: "bytes s = bytes t \<longleftrightarrow> s = t"
  unfolding bytes_def by (simp add: inj_on_def of_char8_eq_iff inj_map_eq_map)

lemma ConstantTimeByteEq_nonzero:
  assumes "v \<noteq> 0"
  shows "ConstantTimeByteEq v 0 = 0"
proof -
  let ?w = "ucast v :: 32 word"
  have lt: "unat v < 256" using unsigned_less [of v, where 'a = nat] by simp
  have pos: "unat v \<noteq> 0" using assms by (simp add: unat_0_iff)
  have u: "unat ?w = unat v" using lt by (simp add: unsigned_ucast_eq take_bit_nat_eq_self)
  then have a: "?w \<noteq> 0" using pos by (metis unat_0_iff)
  have m: "unat (?w - 1) = unat v - 1" using unat_minus_one [OF a] u by simp
  have "unat (drop_bit 31 (?w - 1)) = drop_bit 31 (unat (?w - 1))"
    by (rule unat_drop_bit_eq)
  also have "\<dots> = drop_bit 31 (unat v - 1)" by (simp only: m)
  also have "\<dots> = 0" using lt by (simp add: drop_bit_eq_div)
  finally have "unat (drop_bit 31 (?w - 1)) = 0" .
  then have "drop_bit 31 (?w - 1) = 0" by (simp add: unat_0_iff)
  then show ?thesis by (simp add: ConstantTimeByteEq_def)
qed

lemma ConstantTimeByteEq_zero: "ConstantTimeByteEq v 0 = (if v = 0 then 1 else 0)"
  using ConstantTimeByteEq_nonzero by (simp add: ConstantTimeByteEq_def)

lemma xor_fold_zero: "length x = length y \<Longrightarrow> xor_fold v x y = 0 \<longleftrightarrow> v = 0 \<and> x = y"
proof (induction v x y rule: xor_fold.induct)
  case (1 v a x b y)
  have "a XOR b = 0 \<longleftrightarrow> a = b"
    by (metis bit.xor_left_self xor.right_neutral)
  with 1 show ?case by (auto simp: or_eq_0_iff)
qed auto

lemma ConstantTimeCompare_iff: "ConstantTimeCompare x y = 1 \<longleftrightarrow> x = y"
  by (auto simp: ConstantTimeCompare_def ConstantTimeByteEq_zero xor_fold_zero)

lemma range_tokens_iff: "range_tokens (bytes token) toks \<longleftrightarrow> token \<in> set toks"
  by (induction toks) (auto simp: ConstantTimeCompare_iff bytes_eq_iff)

subsection \<open>The verdict of checkAuthorization\<close>

lemma checkAuthorization_open:
  "AllowedAuthorizationTokens conf = [] \<Longrightarrow> checkAuthorization conf w r = (w, True)"
  by (simp add: checkAuthorization_def)

lemma checkAuthorization_Basic:
  assumes "AllowedAuthorizationTokens conf \<noteq> []"
    and "Header_Get (Header r) ''Authorization'' = ''Basic '' @ token"
  shows "checkAuthorization conf w r =
    (if token \<in> set (AllowedAuthorizationTokens conf) then (w, True)
     else (http_Error w ''Access denied'' StatusUnauthorized, False))"
proof -
  have sp: "SplitN (Header_Get (Header r) ''Authorization'') '' '' 2 = [''Basic'', token]"
    by (simp only: assms(2) SplitN_Basic)
  show ?thesis
    unfolding checkAuthorization_def sp using assms(1)
    by (simp add: range_tokens_iff)
qed

lemma checkAuthorization_malformed:
  assumes "AllowedAuthorizationTokens conf \<noteq> []"
    and "\<not> (\<exists>token. Header_Get (Header r) ''Authorization'' = ''Basic '' @ token)"
  shows "checkAuthorization conf w r =
    (http_Error w ''Bad or missing Authorization header'' StatusBadRequest, False)"
proof -
  let ?auth = "SplitN (Header_Get (Header r) ''Authorization'') '' '' 2"
  have "length ?auth \<noteq> 2 \<or> ?auth ! 0 \<noteq> ''Basic''"
    using assms(2) SplitN_not_Basic by blast
  with assms(1) show ?thesis by (simp add: checkAuthorization_def Let_def)
qed

lemma checkAuthorization_allowed_writes_nothing:
  "snd (checkAuthorization conf w r) \<Longrightarrow> fst (checkAuthorization conf w r) = w"
  by (auto simp: checkAuthorization_def Let_def split: if_splits)

lemma status_http_Error: "status w = None \<Longrightarrow> sent_status (http_Error w msg code) = code"
  by (simp add: http_Error_def WriteHeader_def sent_status_def)

lemma body_http_Error: "body (http_Error w msg code) = body w @ msg @ [CHR 0x0A]"
  by (simp add: http_Error_def WriteHeader_def split: option.splits)

subsection \<open>Claims about checkAuthorization\<close>

text \<open>
  Claim C1. When the configured list of authorization tokens is empty, \<open>checkAuthorization\<close>
  allows every request, whatever its Authorization header, and leaves the response writer
  as it found it: no error response is written.
\<close>

theorem C1_open_access:
  "AllowedAuthorizationTokens conf = [] \<Longrightarrow> checkAuthorization conf w r = (w, True)"
  by (rule checkAuthorization_open)

text \<open>Claim C1 at the empty list, without a header and with a header of another scheme.\<close>

theorem C1_open_access_witness:
  "AllowedAuthorizationTokens open_conf = []
   \<and> checkAuthorization open_conf new_ResponseWriter (example_request None None) = (new_ResponseWriter, True)
   \<and> checkAuthorization open_conf new_ResponseWriter (example_request (Some ''Bearer x'') None) = (new_ResponseWriter, True)"
proof -
  have h: "AllowedAuthorizationTokens open_conf = []" by (simp add: open_conf_def)
  show ?thesis
    using h C1_open_access [OF h, of new_ResponseWriter "example_request None None"]
      C1_open_access [OF h, of new_ResponseWriter "example_request (Some ''Bearer x'') None"]
    by simp
qed

text \<open>
  Claim C2. With a non-empty list of tokens, a request whose Authorization header is
  \<open>Basic\<close>, one space, and a token equal byte for byte to an entry of the list is
  allowed, and no error response is written.
\<close>

theorem C2_listed_token_allowed:
  assumes "AllowedAuthorizationTokens conf \<noteq> []"
    and "Header_Get (Header r) ''Authorization'' = ''Basic '' @ token"
    and "token \<in> set (AllowedAuthorizationTokens conf)"
  shows "checkAuthorization conf w r = (w, True)"
  using checkAuthorization_Basic [OF assms(1,2)] assms(3) by simp

text \<open>Claim C2 at the list holding \<open>secrettoken\<close> and the header \<open>Basic secrettoken\<close>.\<close>

theorem C2_listed_token_allowed_witness:
  "AllowedAuthorizationTokens example_conf \<noteq> []
   \<and> Header_Get (Header (example_request (Some ''Basic secrettoken'') None)) ''Authorization'' = ''Basic '' @ ''secrettoken''
   \<and> ''secrettoken'' \<in> set (AllowedAuthorizationTokens example_conf)
   \<and> checkAuthorization example_conf new_ResponseWriter (example_request (Some ''Basic secrettoken'') None)
       = (new_ResponseWriter, True)"
proof -
  have a: "AllowedAuthorizationTokens example_conf \<noteq> []" by (simp add: example_conf_def)
  have b: "Header_Get (Header (example_request (Some ''Basic secrettoken'') None)) ''Authorization''
      = ''Basic '' @ ''secrettoken''"
    by (simp add: example_request_def Header_Get_def)
  have c: "''secrettoken'' \<in> set (AllowedAuthorizationTokens example_conf)" by (simp add: example_conf_def)
  show ?thesis using a b c C2_listed_token_allowed [OF a b c, of new_ResponseWriter] by simp
qed

text \<open>
  Claim C3. With a non-empty list of tokens and a response not yet begun: a request whose
  Authorization header is absent, or is not \<open>Basic\<close> (in this very case), one space and
  a token, is rejected with status 400; a request whose header has that form but whose token
  is no entry of the list is rejected with status 401; and the two rejections differ, in
  status and as responses.
\<close>

theorem C3_rejections:
  assumes "AllowedAuthorizationTokens conf \<noteq> []" and "status w = None"
  shows "(Header r ''Authorization'' = None \<or>
          \<not> (\<exists>token. Header_Get (Header r) ''Authorization'' = ''Basic '' @ token) \<longrightarrow>
            checkAuthorization conf w r
              = (http_Error w ''Bad or missing Authorization header'' StatusBadRequest, False)
            \<and> sent_status (fst (checkAuthorization conf w r)) = 400)
       \<and> (\<forall>token. Header_Get (Header r) ''Authorization'' = ''Basic '' @ token
                  \<and> token \<notin> set (AllowedAuthorizationTokens conf) \<longrightarrow>
            checkAuthorization conf w r = (http_Error w ''Access denied'' StatusUnauthorized, False)
            \<and> sent_status (fst (checkAuthorization conf w r)) = 401)
       \<and> http_Error w ''Bad or missing Authorization header'' StatusBadRequest
            \<noteq> http_Error w ''Access denied'' StatusUnauthorized
       \<and> StatusBadRequest \<noteq> StatusUnauthorized"
proof (intro conjI impI allI)
  assume m: "Header r ''Authorization'' = None \<or>
          \<not> (\<exists>token. Header_Get (Header r) ''Authorization'' = ''Basic '' @ token)"
  have "\<not> (\<exists>token. Header_Get (Header r) ''Authorization'' = ''Basic '' @ token)"
    using m by (auto simp: Header_Get_def)
  from checkAuthorization_malformed [OF assms(1) this]
  show bad: "checkAuthorization conf w r
      = (http_Error w ''Bad or missing Authorization header'' StatusBadRequest, False)" .
  show "sent_status (fst (checkAuthorization conf w r)) = 400"
    using assms(2) by (simp add: bad status_http_Error StatusBadRequest_def)
next
  fix token
  assume d: "Header_Get (Header r) ''Authorization'' = ''Basic '' @ token
      \<and> token \<notin> set (AllowedAuthorizationTokens conf)"
  then show den: "checkAuthorization conf w r = (http_Error w ''Access denied'' StatusUnauthorized, False)"
    using checkAuthorization_Basic [OF assms(1), of r token w] by simp
  show "sent_status (fst (checkAuthorization conf w r)) = 401"
    using assms(2) by (simp add: den status_http_Error StatusUnauthorized_def)
next
  have "sent_status (http_Error w ''Bad or missing Authorization header'' StatusBadRequest) = 400"
    "sent_status (http_Error w ''Access denied'' StatusUnauthorized) = 401"
    using assms(2) by (simp_all add: status_http_Error StatusBadRequest_def StatusUnauthorized_def)
  then show "http_Error w ''Bad or missing Authorization header'' StatusBadRequest
            \<noteq> http_Error w ''Access denied'' StatusUnauthorized"
    by auto
next
  show "StatusBadRequest \<noteq> StatusUnauthorized"
    by (simp add: StatusBadRequest_def StatusUnauthorized_def)
qed

text \<open>
  Claim C3 at the list holding \<open>secrettoken\<close>: no header and the scheme \<open>basic\<close>
  give 400, the header \<open>Basic wrongtoken\<close> gives 401.
\<close>

theorem C3_rejections_witness:
  "AllowedAuthorizationTokens example_conf \<noteq> [] \<and> status new_ResponseWriter = None
   \<and> sent_status (fst (checkAuthorization example_conf new_ResponseWriter (example_request None None))) = 400
   \<and> \<not> snd (checkAuthorization example_conf new_ResponseWriter (example_request None None))
   \<and> sent_status (fst (checkAuthorization example_conf new_ResponseWriter
        (example_request (Some ''basic secrettoken'') None))) = 400
   \<and> \<not> snd (checkAuthorization example_conf new_ResponseWriter (example_request (Some ''basic secrettoken'') None))
   \<and> sent_status (fst (checkAuthorization example_conf new_ResponseWriter
        (example_request (Some ''Basic wrongtoken'') None))) = 401
   \<and> \<not> snd (checkAuthorization example_conf new_ResponseWriter (example_request (Some ''Basic wrongtoken'') None))"
proof -
  have a: "AllowedAuthorizationTokens example_conf \<noteq> []" by (simp add: example_conf_def)
  have b: "status new_ResponseWriter = None" by (simp add: new_ResponseWriter_def)
  have absent: "Header (example_request None None) ''Authorization'' = None"
    by (simp add: example_request_def)
  have lower: "\<not> (\<exists>token. Header_Get (Header (example_request (Some ''basic secrettoken'') None)) ''Authorization''
      = ''Basic '' @ token)"
    by (simp add: example_request_def Header_Get_def)
  have wrong: "Header_Get (Header (example_request (Some ''Basic wrongtoken'') None)) ''Authorization''
      = ''Basic '' @ ''wrongtoken'' \<and> ''wrongtoken'' \<notin> set (AllowedAuthorizationTokens example_conf)"
    by (simp add: example_request_def Header_Get_def example_conf_def)
  let ?c = "\<lambda>r. checkAuthorization example_conf new_ResponseWriter r"
  have r1: "?c (example_request None None)
      = (http_Error new_ResponseWriter ''Bad or missing Authorization header'' StatusBadRequest, False)
      \<and> sent_status (fst (?c (example_request None None))) = 400"
    using C3_rejections [OF a b, of "example_request None None"] absent by blast
  have r2: "?c (example_request (Some ''basic secrettoken'') None)
      = (http_Error new_ResponseWriter ''Bad or missing Authorization header'' StatusBadRequest, False)
      \<and> sent_status (fst (?c (example_request (Some ''basic secrettoken'') None))) = 400"
    using C3_rejections [OF a b, of "example_request (Some ''basic secrettoken'') None"] lower by blast
  have r3: "?c (example_request (Some ''Basic wrongtoken'') None)
      = (http_Error new_ResponseWriter ''Access denied'' StatusUnauthorized, False)
      \<and> sent_status (fst (?c (example_request (Some ''Basic wrongtoken'') None))) = 401"
    using C3_rejections [OF a b, of "example_request (Some ''Basic wrongtoken'') None"] wrong by blast
  have s1: "\<not> snd (?c (example_request None None))" using r1 by simp
  have s2: "\<not> snd (?c (example_request (Some ''basic secrettoken'') None))" using r2 by simp
  have s3: "\<not> snd (?c (example_request (Some ''Basic wrongtoken'') None))" using r3 by simp
  show ?thesis
    using a b r1 [THEN conjunct2] r2 [THEN conjunct2] r3 [THEN conjunct2] s1 s2 s3 by simp
qed

section \<open>submitHandler: proofs\<close>

subsection \<open>The three ways through submitHandler\<close>

lemma submitHandler_rejected:
  assumes "\<not> snd (checkAuthorization conf w r)"
  shows "submitHandler e conf r (w, s) = (fst (checkAuthorization conf w r), s)"
proof (cases "checkAuthorization conf w r")
  case (Pair w' ok)
  with assms show ?thesis by (simp add: submitHandler_def)
qed

lemma submitHandler_invalid:
  assumes "snd (checkAuthorization conf w r)"
    and "json_Unmarshal (FormValue r ''request'') zero_Request = (request, Some err)"
  shows "submitHandler e conf r (w, s) =
    (http_Error w (''Missing or malformed request form field: '' @ Error err) 400,
     call (Call_Unmarshal (FormValue r ''request'')) s)"
proof -
  have "checkAuthorization conf w r = (w, True)"
    using assms(1) checkAuthorization_allowed_writes_nothing [OF assms(1)]
    by (simp add: prod_eq_iff)
  then show ?thesis
    using assms(2) by (simp add: submitHandler_def)
qed

lemma confirmation_ID: "confirmation (record\<lparr>ID := i\<rparr>) = confirmation record"
  by (simp add: confirmation_def)

lemma submitHandler_accepted:
  assumes "snd (checkAuthorization conf w r)"
    and "json_Unmarshal (FormValue r ''request'') zero_Request = (request, None)"
  shows "submitHandler e conf r (w, s) =
    (w, s\<lparr>rows := (case db_error e of
                      None \<Rightarrow> rows s @ [(new_record e request)\<lparr>ID := next_ID (rows s)\<rparr>]
                    | Some err \<Rightarrow> rows s),
           logged := (case db_error e of
                        None \<Rightarrow> logged s
                      | Some err \<Rightarrow> logged s @ [''Failed to store attendance record: '' @ err]),
           goroutines := goroutines s @ [confirmation (new_record e request)],
           calls := calls s @ [Call_Unmarshal (FormValue r ''request''), Call_Create (new_record e request),
                               Call_NewMessage]\<rparr>)"
proof -
  have "checkAuthorization conf w r = (w, True)"
    using assms(1) checkAuthorization_allowed_writes_nothing [OF assms(1)]
    by (simp add: prod_eq_iff)
  then show ?thesis
    using assms(2)
    by (cases "db_error e")
      (simp_all add: submitHandler_def db_Create_def call_def log_Printf_def go_def
        confirmation_ID Let_def)
qed

subsection \<open>The examples\<close>

lemma ann_authorized: "snd (checkAuthorization example_conf new_ResponseWriter ann_request)"
  by code_simp

lemma ann_unmarshals: "json_Unmarshal (FormValue ann_request ''request'') zero_Request = (ann, None)"
  by code_simp

lemma authorized_example:
  "snd (checkAuthorization example_conf new_ResponseWriter (example_request (Some ''Basic secrettoken'') p))"
  by (cases p; simp add: example_request_def; code_simp)

subsection \<open>Claims about submitHandler\<close>

text \<open>
  Claim C4. When \<open>checkAuthorization\<close> rejects the request, \<open>submitHandler\<close> returns at
  once: the response is the one \<open>checkAuthorization\<close> wrote (400 or 401), and the state is
  the state before the call. So the payload is not parsed (no call of \<open>json.Unmarshal\<close> in
  the trace), no record is created, and no message is built or handed to a goroutine.
\<close>

theorem C4_rejected:
  assumes "\<not> snd (checkAuthorization conf w r)"
  shows "fst (submitHandler e conf r (w, s)) = fst (checkAuthorization conf w r)
       \<and> snd (submitHandler e conf r (w, s)) = s"
  by (simp add: submitHandler_rejected [OF assms])

text \<open>Claim C4 at a request without header (400) and at one with an unlisted token (401).\<close>

theorem C4_rejected_witness:
  "\<not> snd (checkAuthorization example_conf new_ResponseWriter (example_request None (Some ann_payload)))
   \<and> sent_status (fst (submitHandler (example_env None) example_conf
        (example_request None (Some ann_payload)) (new_ResponseWriter, empty_world))) = 400
   \<and> snd (submitHandler (example_env None) example_conf
        (example_request None (Some ann_payload)) (new_ResponseWriter, empty_world)) = empty_world
   \<and> \<not> snd (checkAuthorization example_conf new_ResponseWriter
        (example_request (Some ''Basic wrongtoken'') (Some ann_payload)))
   \<and> sent_status (fst (submitHandler (example_env None) example_conf
        (example_request (Some ''Basic wrongtoken'') (Some ann_payload)) (new_ResponseWriter, empty_world))) = 401
   \<and> snd (submitHandler (example_env None) example_conf
        (example_request (Some ''Basic wrongtoken'') (Some ann_payload)) (new_ResponseWriter, empty_world))
       = empty_world"
proof -
  let ?r1 = "example_request None (Some ann_payload)"
  let ?r2 = "example_request (Some ''Basic wrongtoken'') (Some ann_payload)"
  have a1: "\<not> snd (checkAuthorization example_conf new_ResponseWriter ?r1)" by code_simp
  have a2: "\<not> snd (checkAuthorization example_conf new_ResponseWriter ?r2)" by code_simp
  have b1: "sent_status (fst (checkAuthorization example_conf new_ResponseWriter ?r1)) = 400" by code_simp
  have b2: "sent_status (fst (checkAuthorization example_conf new_ResponseWriter ?r2)) = 401" by code_simp
  show ?thesis
    using a1 a2 b1 b2
      C4_rejected [OF a1, of "example_env None" empty_world]
      C4_rejected [OF a2, of "example_env None" empty_world]
    by simp
qed

lemma json_Unmarshal_nothing: "json_Unmarshal [] request = (request, Some SyntaxError)"
  by (simp add: json_Unmarshal_def json_parse_def)

lemma FormValue_absent: "Form r key = None \<Longrightarrow> FormValue r key = []"
  by (simp add: FormValue_def)

text \<open>
  Claim C5. For an authorized request whose form field \<open>request\<close> is absent, or does not
  parse as a \<open>Request\<close> (a syntax error, or a value of the wrong type), \<open>submitHandler\<close>
  answers with status 400 and a message that carries the error; no record is created (the
  table is unchanged and \<open>db.Create\<close> is not called), and no message is built or handed to
  a goroutine.
\<close>

theorem C5_invalid_payload:
  assumes "snd (checkAuthorization conf w r)"
    and "status w = None"
    and "Form r ''request'' = None \<or> snd (json_Unmarshal (FormValue r ''request'') zero_Request) \<noteq> None"
  shows "sent_status (fst (submitHandler e conf r (w, s))) = 400
       \<and> (\<exists>err. snd (json_Unmarshal (FormValue r ''request'') zero_Request) = Some err
              \<and> body (fst (submitHandler e conf r (w, s)))
                = body w @ ''Missing or malformed request form field: '' @ Error err @ ''\<newline>'')
       \<and> rows (snd (submitHandler e conf r (w, s))) = rows s
       \<and> logged (snd (submitHandler e conf r (w, s))) = logged s
       \<and> goroutines (snd (submitHandler e conf r (w, s))) = goroutines s
       \<and> calls (snd (submitHandler e conf r (w, s))) = calls s @ [Call_Unmarshal (FormValue r ''request'')]"
proof -
  have "snd (json_Unmarshal (FormValue r ''request'') zero_Request) \<noteq> None"
    using assms(3) by (auto simp: FormValue_absent json_Unmarshal_nothing)
  then obtain request err
    where u: "json_Unmarshal (FormValue r ''request'') zero_Request = (request, Some err)"
    by (cases "json_Unmarshal (FormValue r ''request'') zero_Request") auto
  have "snd (json_Unmarshal (FormValue r ''request'') zero_Request) = Some err"
    by (simp add: u)
  then show ?thesis
    using assms(2)
    by (auto simp: submitHandler_invalid [OF assms(1) u] status_http_Error body_http_Error call_def)
qed

text \<open>
  Claim C5 at an absent form field, at the payload \<open>not-json\<close>, and at an object whose
  \<open>Name\<close> is a number.
\<close>

theorem C5_invalid_payload_witness:
  "sent_status (fst (submitHandler (example_env None) example_conf
      (example_request (Some ''Basic secrettoken'') None) (new_ResponseWriter, empty_world))) = 400
   \<and> rows (snd (submitHandler (example_env None) example_conf
      (example_request (Some ''Basic secrettoken'') None) (new_ResponseWriter, empty_world))) = []
   \<and> goroutines (snd (submitHandler (example_env None) example_conf
      (example_request (Some ''Basic secrettoken'') None) (new_ResponseWriter, empty_world))) = []
   \<and> sent_status (fst (submitHandler (example_env None) example_conf
      (example_request (Some ''Basic secrettoken'') (Some ''not-json'')) (new_ResponseWriter, empty_world))) = 400
   \<and> rows (snd (submitHandler (example_env None) example_conf
      (example_request (Some ''Basic secrettoken'') (Some ''not-json'')) (new_ResponseWriter, empty_world))) = []
   \<and> goroutines (snd (submitHandler (example_env None) example_conf
      (example_request (Some ''Basic secrettoken'') (Some ''not-json'')) (new_ResponseWriter, empty_world))) = []
   \<and> sent_status (fst (submitHandler (example_env None) example_conf
      (example_request (Some ''Basic secrettoken'') (Some ''{\"Name\":5}'')) (new_ResponseWriter, empty_world))) = 400
   \<and> rows (snd (submitHandler (example_env None) example_conf
      (example_request (Some ''Basic secrettoken'') (Some ''{\"Name\":5}'')) (new_ResponseWriter, empty_world))) = []
   \<and> goroutines (snd (submitHandler (example_env None) example_conf
      (example_request (Some ''Basic secrettoken'') (Some ''{\"Name\":5}'')) (new_ResponseWriter, empty_world))) = []"
proof -
  let ?r0 = "example_request (Some ''Basic secrettoken'') None"
  let ?r1 = "example_request (Some ''Basic secrettoken'') (Some ''not-json'')"
  let ?r2 = "example_request (Some ''Basic secrettoken'') (Some ''{\"Name\":5}'')"
  have w: "status new_ResponseWriter = None" by (simp add: new_ResponseWriter_def)
  have p0: "Form ?r0 ''request'' = None \<or> snd (json_Unmarshal (FormValue ?r0 ''request'') zero_Request) \<noteq> None"
    by (simp add: example_request_def)
  have "snd (json_Unmarshal (FormValue ?r1 ''request'') zero_Request) \<noteq> None" by code_simp
  then have p1: "Form ?r1 ''request'' = None \<or> snd (json_Unmarshal (FormValue ?r1 ''request'') zero_Request) \<noteq> None" ..
  have "snd (json_Unmarshal (FormValue ?r2 ''request'') zero_Request) \<noteq> None" by code_simp
  then have p2: "Form ?r2 ''request'' = None \<or> snd (json_Unmarshal (FormValue ?r2 ''request'') zero_Request) \<noteq> None" ..
  show ?thesis
    using C5_invalid_payload [OF authorized_example w p0, of "example_env None" empty_world]
      C5_invalid_payload [OF authorized_example w p1, of "example_env None" empty_world]
      C5_invalid_payload [OF authorized_example w p2, of "example_env None" empty_world]
    by (simp add: empty_world_def)
qed

lemma new_record_fields:
  "ID (new_record e request) = 0"
  "When (new_record e request) = time_Now e"
  "Record.Name (new_record e request) = Request.Name request"
  "Record.SurfId (new_record e request) = Request.SurfId request"
  "Record.EMail (new_record e request) = Request.EMail request"
  by (simp_all add: new_record_def)

lemma new_record_db_error: "new_record (e\<lparr>db_error := x\<rparr>) request = new_record e request"
  by (simp add: new_record_def time_Now_def)

text \<open>
  Claim C6 as stated fails when the write fails: the request is authorized and the payload
  valid, yet no record is persisted.
\<close>

theorem C6_counterexample:
  "snd (checkAuthorization example_conf new_ResponseWriter ann_request)
   \<and> json_Unmarshal (FormValue ann_request ''request'') zero_Request = (ann, None)
   \<and> rows empty_world = []
   \<and> rows (snd (submitHandler (example_env (Some ''database is locked'')) example_conf ann_request
        (new_ResponseWriter, empty_world))) = []"
  using ann_authorized ann_unmarshals
  by (simp add: submitHandler_accepted [OF ann_authorized ann_unmarshals] example_env_def empty_world_def)

text \<open>
  Claim C6, amended. For an authorized request with a valid payload, \<open>submitHandler\<close>
  builds exactly one record and hands it to \<open>db.Create\<close> exactly once. Its \<open>Name\<close>,
  \<open>SurfId\<close> and \<open>EMail\<close> are those of the request as they are, and its \<open>When\<close> is the
  value of \<open>time.Now()\<close>, between the instant the handler is entered and the instant it
  returns. When the write succeeds the table grows by exactly this record, with the key
  the database assigns; when the write fails the table is unchanged.
\<close>

theorem C6_one_record:
  assumes "snd (checkAuthorization conf w r)"
    and "json_Unmarshal (FormValue r ''request'') zero_Request = (request, None)"
  shows "calls (snd (submitHandler e conf r (w, s)))
           = calls s @ [Call_Unmarshal (FormValue r ''request''), Call_Create (new_record e request),
                        Call_NewMessage]
       \<and> Record.Name (new_record e request) = Request.Name request
       \<and> Record.SurfId (new_record e request) = Request.SurfId request
       \<and> Record.EMail (new_record e request) = Request.EMail request
       \<and> When (new_record e request) = time_Now e
       \<and> entered e \<le> When (new_record e request)
       \<and> When (new_record e request) \<le> returned e
       \<and> (db_error e = None \<longrightarrow>
            rows (snd (submitHandler e conf r (w, s)))
              = rows s @ [(new_record e request)\<lparr>ID := next_ID (rows s)\<rparr>])
       \<and> (db_error e \<noteq> None \<longrightarrow> rows (snd (submitHandler e conf r (w, s))) = rows s)"
  by (auto simp: submitHandler_accepted [OF assms] new_record_fields time_Now_def returned_def)

text \<open>Claim C6 (amended) at the request of Ann, with a write that succeeds and one that fails.\<close>

theorem C6_one_record_witness:
  "calls (snd (submitHandler (example_env None) example_conf ann_request (new_ResponseWriter, empty_world)))
     = [Call_Unmarshal ann_payload,
        Call_Create \<lparr>ID = 0, When = 1005, Record.Name = ''Ann'', Record.SurfId = ''ann123'',
                     Record.EMail = ''ann@example.com''\<rparr>,
        Call_NewMessage]
   \<and> rows (snd (submitHandler (example_env None) example_conf ann_request (new_ResponseWriter, empty_world)))
     = [\<lparr>ID = 1, When = 1005, Record.Name = ''Ann'', Record.SurfId = ''ann123'',
         Record.EMail = ''ann@example.com''\<rparr>]
   \<and> entered (example_env None) \<le> 1005 \<and> 1005 \<le> returned (example_env None)
   \<and> rows (snd (submitHandler (example_env (Some ''database is locked'')) example_conf ann_request
        (new_ResponseWriter, empty_world))) = []"
proof -
  have f: "FormValue ann_request ''request'' = ann_payload"
    by (simp add: ann_request_def example_request_def FormValue_def)
  have ok: "db_error (example_env None) = None" by (simp add: example_env_def)
  have ko: "db_error (example_env (Some ''database is locked'')) \<noteq> None" by (simp add: example_env_def)
  have n: "new_record (example_env None) ann = \<lparr>ID = 0, When = 1005, Record.Name = ''Ann'',
      Record.SurfId = ''ann123'', Record.EMail = ''ann@example.com''\<rparr>"
    by (simp add: new_record_def example_env_def time_Now_def ann_def)
  show ?thesis
    using C6_one_record [OF ann_authorized ann_unmarshals, of "example_env None" empty_world]
      C6_one_record [OF ann_authorized ann_unmarshals, of "example_env (Some ''database is locked'')" empty_world]
      ok ko
    by (simp add: f n empty_world_def next_ID_def)
qed

subsection \<open>The confirmation\<close>

lemma needsEncoding_iff:
  "needsEncoding s \<longleftrightarrow> \<not> (\<forall>b \<in> set s. b = CHR 0x09 \<or> byte_in 0x20 0x7E b)"
  by (auto simp: needsEncoding_def list_ex_iff byte_in_def not_less not_le)

lemma QEncoding_Encode_plain: "\<not> needsEncoding s \<Longrightarrow> QEncoding_Encode cs s = s"
  by (simp add: QEncoding_Encode_def)

lemma From_plain:
  "QEncoding_Encode ''UTF-8'' ''Privacy Seminar <no-reply@metrics.privacybydesign.foundation>''
     = ''Privacy Seminar <no-reply@metrics.privacybydesign.foundation>''"
  by code_simp

lemma Subject_plain:
  "QEncoding_Encode ''UTF-8'' ''Your presence at Privacy and Identity''
     = ''Your presence at Privacy and Identity''"
  by code_simp

lemma GetHeader_confirmation:
  "GetHeader (confirmation record) ''To'' = [QEncoding_Encode ''UTF-8'' (Record.EMail record)]"
  "GetHeader (confirmation record) ''From''
     = [''Privacy Seminar <no-reply@metrics.privacybydesign.foundation>'']"
  "GetHeader (confirmation record) ''Subject'' = [''Your presence at Privacy and Identity'']"
  by (simp_all add: confirmation_def GetHeader_def SetHeader_def SetBody_def NewMessage_def
      From_plain Subject_plain)

lemma GetHeader_To_plain:
  "\<not> needsEncoding (Record.EMail record) \<Longrightarrow> GetHeader (confirmation record) ''To'' = [Record.EMail record]"
  by (simp add: GetHeader_confirmation QEncoding_Encode_plain)

lemma parts_confirmation:
  "parts (confirmation record) = [(''text/plain'',
     ''Dear student '' @ Record.Name record @ '',\<newline>\<newline>'' @
     ''This email confirms that your presence at the course\<newline>'' @
     ''Privacy and Identity has been registered at: '' @ Time_String (When record) @
     ''\<newline>\<newline>With best regards,\<newline>Koning and Jacobs\<newline>'')]"
  by (simp add: confirmation_def SetBody_def SetHeader_def NewMessage_def)

lemma confirmation_cong:
  assumes "Record.Name r1 = Record.Name r2" and "When r1 = When r2" and "Record.EMail r1 = Record.EMail r2"
  shows "confirmation r1 = confirmation r2"
  using assms by (simp add: confirmation_def)

lemma accent_authorized: "snd (checkAuthorization example_conf new_ResponseWriter accent_request)"
  by code_simp

lemma accent_unmarshals: "json_Unmarshal (FormValue accent_request ''request'') zero_Request = (accent, None)"
  by code_simp

lemma accent_encoded:
  "QEncoding_Encode ''UTF-8'' (''ren'' @ [CHR 0xC3, CHR 0xA9] @ ''e@example.com'')
     = ''=?UTF-8?q?ren=C3=A9e@example.com?=''"
  by code_simp

text \<open>
  Claim C7. For an authorized request with a valid payload, a failing write changes nothing
  in the response: it is the response of the run where the write succeeds, namely the writer
  untouched, so the client receives what it would have received (status 200 when nothing had
  been written before). The failure is logged, and the confirmation is built and handed to
  a goroutine as in the run where the write succeeds.
\<close>

theorem C7_failed_write:
  assumes "snd (checkAuthorization conf w r)"
    and "json_Unmarshal (FormValue r ''request'') zero_Request = (request, None)"
    and "db_error e = Some err"
  shows "fst (submitHandler e conf r (w, s)) = fst (submitHandler (e\<lparr>db_error := None\<rparr>) conf r (w, s))
       \<and> fst (submitHandler e conf r (w, s)) = w
       \<and> sent_status (fst (submitHandler e conf r (w, s))) = sent_status w
       \<and> (status w = None \<longrightarrow> sent_status (fst (submitHandler e conf r (w, s))) = 200)
       \<and> logged (snd (submitHandler e conf r (w, s)))
            = logged s @ [''Failed to store attendance record: '' @ err]
       \<and> rows (snd (submitHandler e conf r (w, s))) = rows s
       \<and> goroutines (snd (submitHandler e conf r (w, s)))
            = goroutines s @ [confirmation (new_record e request)]
       \<and> goroutines (snd (submitHandler e conf r (w, s)))
            = goroutines (snd (submitHandler (e\<lparr>db_error := None\<rparr>) conf r (w, s)))"
  using assms(3)
  by (simp add: submitHandler_accepted [OF assms(1,2)] new_record_db_error sent_status_def)

text \<open>Claim C7 at the request of Ann and a write that fails.\<close>

theorem C7_failed_write_witness:
  "db_error (example_env (Some ''database is locked'')) = Some ''database is locked''
   \<and> sent_status (fst (submitHandler (example_env (Some ''database is locked'')) example_conf ann_request
        (new_ResponseWriter, empty_world))) = 200
   \<and> logged (snd (submitHandler (example_env (Some ''database is locked'')) example_conf ann_request
        (new_ResponseWriter, empty_world))) = [''Failed to store attendance record: database is locked'']
   \<and> map (\<lambda>m. GetHeader m ''To'')
        (goroutines (snd (submitHandler (example_env (Some ''database is locked'')) example_conf ann_request
          (new_ResponseWriter, empty_world)))) = [[''ann@example.com'']]"
proof -
  have d: "db_error (example_env (Some ''database is locked'')) = Some ''database is locked''"
    by (simp add: example_env_def)
  let ?h = "submitHandler (example_env (Some ''database is locked'')) example_conf ann_request
      (new_ResponseWriter, empty_world)"
  note t = C7_failed_write [OF ann_authorized ann_unmarshals d, of empty_world]
  have t1: "sent_status (fst ?h) = sent_status new_ResponseWriter" using t by blast
  have t2: "logged (snd ?h) = logged empty_world @ [''Failed to store attendance record: '' @ ''database is locked'']"
    using t by blast
  have t3: "goroutines (snd ?h) = goroutines empty_world
      @ [confirmation (new_record (example_env (Some ''database is locked'')) ann)]"
    using t by blast
  have p: "\<not> needsEncoding ''ann@example.com''" by code_simp
  show ?thesis
    using d t1 t2 t3 p by (simp add: empty_world_def new_ResponseWriter_def sent_status_def
        GetHeader_To_plain new_record_fields ann_def)
qed


text \<open>
  Claim C8 as stated fails for an address with a byte outside printable ASCII: the
  submission is accepted, and the \<open>To\<close> field of the message is an encoded word, not the
  \<open>EMail\<close> of the record.
\<close>

theorem C8_counterexample:
  "snd (checkAuthorization example_conf new_ResponseWriter accent_request)
   \<and> json_Unmarshal (FormValue accent_request ''request'') zero_Request = (accent, None)
   \<and> goroutines (snd (submitHandler (example_env None) example_conf accent_request
        (new_ResponseWriter, empty_world)))
       = [confirmation (new_record (example_env None) accent)]
   \<and> Record.EMail (new_record (example_env None) accent) = ''ren'' @ [CHR 0xC3, CHR 0xA9] @ ''e@example.com''
   \<and> GetHeader (confirmation (new_record (example_env None) accent)) ''To''
       = [''=?UTF-8?q?ren=C3=A9e@example.com?='']
   \<and> GetHeader (confirmation (new_record (example_env None) accent)) ''To''
       \<noteq> [Record.EMail (new_record (example_env None) accent)]"
  using accent_authorized accent_unmarshals
  by (simp add: submitHandler_accepted [OF accent_authorized accent_unmarshals] GetHeader_confirmation
      new_record_fields accent_def accent_encoded [simplified] empty_world_def)

text \<open>
  Claim C8, amended. For an accepted submission the message handed to the goroutine is the
  confirmation of the record. Its \<open>To\<close> field is the \<open>EMail\<close> of the record as the mail
  library stores a header value: the \<open>EMail\<close> itself when every byte of it is a printable
  ASCII character or a tab, and its encoded word otherwise. \<open>From\<close> and \<open>Subject\<close> are
  fixed, the body is made of the \<open>Name\<close> and the \<open>When\<close> of the record, and records that
  agree on \<open>Name\<close>, \<open>When\<close> and \<open>EMail\<close> have the same confirmation.
\<close>

theorem C8_confirmation:
  assumes "snd (checkAuthorization conf w r)"
    and "json_Unmarshal (FormValue r ''request'') zero_Request = (request, None)"
  shows "goroutines (snd (submitHandler e conf r (w, s)))
           = goroutines s @ [confirmation (new_record e request)]
       \<and> (\<forall>record. GetHeader (confirmation record) ''To''
                = [QEncoding_Encode ''UTF-8'' (Record.EMail record)]
            \<and> ((\<forall>b \<in> set (Record.EMail record). b = CHR 0x09 \<or> byte_in 0x20 0x7E b) \<longrightarrow>
                 GetHeader (confirmation record) ''To'' = [Record.EMail record])
            \<and> GetHeader (confirmation record) ''From''
                = [''Privacy Seminar <no-reply@metrics.privacybydesign.foundation>'']
            \<and> GetHeader (confirmation record) ''Subject'' = [''Your presence at Privacy and Identity'']
            \<and> parts (confirmation record) = [(''text/plain'',
                ''Dear student '' @ Record.Name record @ '',\<newline>\<newline>'' @
                ''This email confirms that your presence at the course\<newline>'' @
                ''Privacy and Identity has been registered at: '' @ Time_String (When record) @
                ''\<newline>\<newline>With best regards,\<newline>Koning and Jacobs\<newline>'')])
       \<and> (\<forall>r1 r2. Record.Name r1 = Record.Name r2 \<and> When r1 = When r2 \<and> Record.EMail r1 = Record.EMail r2
            \<longrightarrow> confirmation r1 = confirmation r2)"
proof (intro conjI allI impI)
  show "goroutines (snd (submitHandler e conf r (w, s)))
      = goroutines s @ [confirmation (new_record e request)]"
    by (simp add: submitHandler_accepted [OF assms])
next
  fix rcd :: Record
  assume "\<forall>b \<in> set (Record.EMail rcd). b = CHR 0x09 \<or> byte_in 0x20 0x7E b"
  then have "\<not> needsEncoding (Record.EMail rcd)" by (simp add: needsEncoding_iff)
  then show "GetHeader (confirmation rcd) ''To'' = [Record.EMail rcd]"
    by (rule GetHeader_To_plain)
next
  fix r1 r2 :: Record
  assume "Record.Name r1 = Record.Name r2 \<and> When r1 = When r2 \<and> Record.EMail r1 = Record.EMail r2"
  then show "confirmation r1 = confirmation r2"
    using confirmation_cong by blast
qed (rule GetHeader_confirmation parts_confirmation)+

text \<open>
  Claim C8 (amended) at the request of Ann, whose address is stored as it is, at a request
  whose address is stored as an encoded word, and at two records that differ in key and
  \<open>SurfId\<close> only.
\<close>

theorem C8_confirmation_witness:
  "goroutines (snd (submitHandler (example_env None) example_conf ann_request (new_ResponseWriter, empty_world)))
     = [confirmation (new_record (example_env None) ann)]
   \<and> GetHeader (confirmation (new_record (example_env None) ann)) ''To'' = [''ann@example.com'']
   \<and> GetHeader (confirmation (new_record (example_env None) ann)) ''From''
       = [''Privacy Seminar <no-reply@metrics.privacybydesign.foundation>'']
   \<and> GetHeader (confirmation (new_record (example_env None) ann)) ''Subject''
       = [''Your presence at Privacy and Identity'']
   \<and> parts (confirmation (new_record (example_env None) ann)) = [(''text/plain'',
        ''Dear student Ann,\<newline>\<newline>This email confirms that your presence at the course\<newline>Privacy and Identity has been registered at: ''
        @ Time_String 1005 @ ''\<newline>\<newline>With best regards,\<newline>Koning and Jacobs\<newline>'')]
   \<and> GetHeader (confirmation (new_record (example_env None) accent)) ''To''
       = [''=?UTF-8?q?ren=C3=A9e@example.com?='']
   \<and> confirmation \<lparr>ID = 1, When = 1005, Record.Name = ''Ann'', Record.SurfId = ''ann123'',
        Record.EMail = ''ann@example.com''\<rparr>
     = confirmation \<lparr>ID = 2, When = 1005, Record.Name = ''Ann'', Record.SurfId = ''other'',
        Record.EMail = ''ann@example.com''\<rparr>"
proof -
  let ?ra = "new_record (example_env None) ann"
  let ?rb = "new_record (example_env None) accent"
  note t = C8_confirmation [OF ann_authorized ann_unmarshals, of "example_env None" empty_world]
  have g: "goroutines (snd (submitHandler (example_env None) example_conf ann_request (new_ResponseWriter, empty_world)))
     = goroutines empty_world @ [confirmation ?ra]"
    using t by blast
  have all: "\<forall>record. GetHeader (confirmation record) ''To''
                = [QEncoding_Encode ''UTF-8'' (Record.EMail record)]
            \<and> ((\<forall>b \<in> set (Record.EMail record). b = CHR 0x09 \<or> byte_in 0x20 0x7E b) \<longrightarrow>
                 GetHeader (confirmation record) ''To'' = [Record.EMail record])
            \<and> GetHeader (confirmation record) ''From''
                = [''Privacy Seminar <no-reply@metrics.privacybydesign.foundation>'']
            \<and> GetHeader (confirmation record) ''Subject'' = [''Your presence at Privacy and Identity'']
            \<and> parts (confirmation record) = [(''text/plain'',
                ''Dear student '' @ Record.Name record @ '',\<newline>\<newline>'' @
                ''This email confirms that your presence at the course\<newline>'' @
                ''Privacy and Identity has been registered at: '' @ Time_String (When record) @
                ''\<newline>\<newline>With best regards,\<newline>Koning and Jacobs\<newline>'')]"
    using t by blast
  have ea: "Record.EMail ?ra = ''ann@example.com''" "Record.Name ?ra = ''Ann''" "When ?ra = 1005"
    by (simp_all add: new_record_def ann_def example_env_def time_Now_def)
  have eb: "Record.EMail ?rb = ''ren'' @ [CHR 0xC3, CHR 0xA9] @ ''e@example.com''"
    by (simp add: new_record_def accent_def)
  have printable: "\<forall>b \<in> set (Record.EMail ?ra). b = CHR 0x09 \<or> byte_in 0x20 0x7E b"
    unfolding ea by (simp add: byte_in_def)
  have to_a: "GetHeader (confirmation ?ra) ''To'' = [''ann@example.com'']"
  proof -
    have "(\<forall>b \<in> set (Record.EMail ?ra). b = CHR 0x09 \<or> byte_in 0x20 0x7E b) \<longrightarrow>
        GetHeader (confirmation ?ra) ''To'' = [Record.EMail ?ra]"
      using all by blast
    with printable have "GetHeader (confirmation ?ra) ''To'' = [Record.EMail ?ra]" by blast
    then show ?thesis by (simp only: ea)
  qed
  have from_a: "GetHeader (confirmation ?ra) ''From''
       = [''Privacy Seminar <no-reply@metrics.privacybydesign.foundation>'']"
    using all by blast
  have subj_a: "GetHeader (confirmation ?ra) ''Subject'' = [''Your presence at Privacy and Identity'']"
    using all by blast
  have parts_a: "parts (confirmation ?ra) = [(''text/plain'',
        ''Dear student Ann,\<newline>\<newline>This email confirms that your presence at the course\<newline>Privacy and Identity has been registered at: ''
        @ Time_String 1005 @ ''\<newline>\<newline>With best regards,\<newline>Koning and Jacobs\<newline>'')]"
  proof -
    have "parts (confirmation ?ra) = [(''text/plain'',
                ''Dear student '' @ Record.Name ?ra @ '',\<newline>\<newline>'' @
                ''This email confirms that your presence at the course\<newline>'' @
                ''Privacy and Identity has been registered at: '' @ Time_String (When ?ra) @
                ''\<newline>\<newline>With best regards,\<newline>Koning and Jacobs\<newline>'')]"
      using all by blast
    then show ?thesis unfolding ea by simp
  qed
  have to_b: "GetHeader (confirmation ?rb) ''To'' = [''=?UTF-8?q?ren=C3=A9e@example.com?='']"
    using all [THEN spec, of ?rb] by (simp add: eb accent_encoded [simplified])
  have q: "\<forall>r1 r2. Record.Name r1 = Record.Name r2 \<and> When r1 = When r2 \<and> Record.EMail r1 = Record.EMail r2
            \<longrightarrow> confirmation r1 = confirmation r2"
    using t by blast
  have e: "confirmation \<lparr>ID = 1, When = 1005, Record.Name = ''Ann'', Record.SurfId = ''ann123'',
        Record.EMail = ''ann@example.com''\<rparr>
     = confirmation \<lparr>ID = 2, When = 1005, Record.Name = ''Ann'', Record.SurfId = ''other'',
        Record.EMail = ''ann@example.com''\<rparr>"
    by (rule q [rule_format]) simp
  have g': "goroutines (snd (submitHandler (example_env None) example_conf ann_request (new_ResponseWriter, empty_world)))
     = [confirmation ?ra]"
    using g by (simp add: empty_world_def)
  show ?thesis
    by (intro conjI) (rule g' to_a from_a subj_a parts_a to_b e)+
qed

subsection \<open>What json.Unmarshal accepts\<close>










end
